theory Spec2Isabelle
  imports Complex_Main
begin

section \<open>Values and errors\<close>

text \<open>
  Python exceptions that the modelled functions can raise. \<open>ValueError\<close> is what numpy
  raises for the minimum of an empty array and for a negative number of samples,
  \<open>IndexError\<close> is what indexing a tuple past its end raises.
\<close>

datatype error = ValueError | IndexError

text \<open>Sequencing of computations that may raise: the first exception wins.\<close>

definition bind_error :: "error + 'a \<Rightarrow> ('a \<Rightarrow> error + 'b) \<Rightarrow> error + 'b" where
  "bind_error m f = (case m of Inl e \<Rightarrow> Inl e | Inr x \<Rightarrow> f x)"

section \<open>numpy primitives used by the grid builder\<close>

text \<open>
  \<open>vector.min()\<close> and \<open>vector.max()\<close>: a reduction with no identity, so the empty
  vector raises.
\<close>

fun vector_min :: "real list \<Rightarrow> error + real" where
  "vector_min [] = Inl ValueError"
| "vector_min (x # xs) = Inr (fold min xs x)"

fun vector_max :: "real list \<Rightarrow> error + real" where
  "vector_max [] = Inl ValueError"
| "vector_max (x # xs) = Inr (fold max xs x)"

text \<open>
  \<open>linspace(start, stop, num=n)\<close> with the default \<open>endpoint=True\<close>: a negative
  \<open>num\<close> raises; otherwise the samples are \<open>start + i * step\<close> for \<open>i < num\<close> with
  \<open>step = (stop - start) / (num - 1)\<close>, and when \<open>num > 1\<close> the last sample is
  overwritten with \<open>stop\<close>. With \<open>num = 1\<close> there is no step and the only sample is
  \<open>start\<close>.
\<close>

definition linspace :: "real \<Rightarrow> real \<Rightarrow> int \<Rightarrow> error + real list" where
  "linspace start stop num =
     (if num < 0 then Inl ValueError
      else if num \<le> 1 then Inr (replicate (nat num) start)
      else
        let step = (stop - start) / (of_int num - 1);
            y = map (\<lambda>i. start + of_nat i * step) [0..<nat num]
        in Inr (y[nat num - 1 := stop]))"

section \<open>The grid builder: \<open>make_vector_grid\<close>\<close>

definition make_vector_grid ::
  "real list \<Rightarrow> real option \<Rightarrow> real option \<Rightarrow> real \<Rightarrow> int \<Rightarrow> error + real list" where
  "make_vector_grid vector grid_min grid_max fraction_grid_extension n_grid =
     bind_error (case grid_min of None \<Rightarrow> vector_min vector | Some m \<Rightarrow> Inr m) (\<lambda>grid_min.
     bind_error (case grid_max of None \<Rightarrow> vector_max vector | Some m \<Rightarrow> Inr m) (\<lambda>grid_max.
       let grid_range = grid_max - grid_min;
           grid_extension = grid_range * fraction_grid_extension
       in linspace (grid_min - grid_extension) (grid_max + grid_extension) n_grid))"

text \<open>
  The bounds the grid builder works with: the override when one is supplied, else the
  empirical minimum or maximum of the vector.
\<close>

definition lower_bound :: "real list \<Rightarrow> real option \<Rightarrow> real" where
  "lower_bound vector grid_min = (case grid_min of None \<Rightarrow> Min (set vector) | Some m \<Rightarrow> m)"

definition upper_bound :: "real list \<Rightarrow> real option \<Rightarrow> real" where
  "upper_bound vector grid_max = (case grid_max of None \<Rightarrow> Max (set vector) | Some m \<Rightarrow> m)"

text \<open>
  The two ends of the interval the grid is laid over: \<open>min - extension\<close> and
  \<open>max + extension\<close>, with \<open>extension = (max - min) * fraction\<close>.
\<close>

definition grid_extension :: "real list \<Rightarrow> real option \<Rightarrow> real option \<Rightarrow> real \<Rightarrow> real" where
  "grid_extension vector grid_min grid_max fraction =
     (upper_bound vector grid_max - lower_bound vector grid_min) * fraction"




section \<open>The mesh assembler\<close>

text \<open>
  Modelled from the spec: the source of \<open>make_mesh_grid_point_x_dimension\<close> is not among
  the files of the repository at hand; only its import and its call in the estimator are.
  The spec describes it as the full Cartesian product of the Dimension Grids, one point
  per combination of one value from each grid, each point listing its coordinates in the
  order of the grids, in a fixed enumeration order. The order taken here lets the last
  grid vary fastest.
\<close>

fun make_mesh_grid_point_x_dimension :: "'a list list \<Rightarrow> 'a list list" where
  "make_mesh_grid_point_x_dimension [] = [[]]"
| "make_mesh_grid_point_x_dimension (grid # grids) =
     concat (map (\<lambda>x. map (\<lambda>point. x # point) (make_mesh_grid_point_x_dimension grids)) grid)"

text \<open>The point of the mesh that takes, in each dimension, the grid value at a given index.\<close>

definition point_at :: "'a list list \<Rightarrow> nat list \<Rightarrow> 'a list" where
  "point_at grids indices = map (\<lambda>(grid, k). grid ! k) (zip grids indices)"

section \<open>The density evaluator: \<open>estimate_element_x_dimension_kernel_density\<close>\<close>

text \<open>
  A value of the array the kernel evaluation returns: a floating-point number is a finite
  real, an infinity or not-a-number.
\<close>

datatype fval = Finite real | PosInf | NegInf | NaN

text \<open>
  \<open>array.clip(min=m)\<close> on one entry: the larger of the entry and \<open>m\<close>, where
  not-a-number propagates.
\<close>

fun clip_min :: "real \<Rightarrow> fval \<Rightarrow> fval" where
  "clip_min m (Finite x) = Finite (max x m)"
| "clip_min m PosInf = PosInf"
| "clip_min m NegInf = Finite m"
| "clip_min m NaN = NaN"

fun is_finite :: "fval \<Rightarrow> bool" where
  "is_finite (Finite x) = True"
| "is_finite PosInf = False"
| "is_finite NegInf = False"
| "is_finite NaN = False"

text \<open>The comparison \<open>v >= m\<close> of floating-point numbers: false for not-a-number.\<close>

fun at_least :: "real \<Rightarrow> fval \<Rightarrow> bool" where
  "at_least m (Finite x) = (m \<le> x)"
| "at_least m PosInf = True"
| "at_least m NegInf = False"
| "at_least m NaN = False"

text \<open>The comparison \<open>v > 0\<close>.\<close>

fun is_positive :: "fval \<Rightarrow> bool" where
  "is_positive (Finite x) = (0 < x)"
| "is_positive PosInf = True"
| "is_positive NegInf = False"
| "is_positive NaN = False"

text \<open>
  What the estimator imports and the sources at hand do not define: the three constants,
  the bandwidth estimator, and the kernel evaluation of the KDEpy library,
  \<open>FFTKDE(bw=...).fit(data).evaluate(grid_points)\<close>, which may raise.
  The Sample Matrix is held by columns: the \<open>i\<close>-th list is \<open>element_x_dimension[:, i]\<close>.
\<close>

record library =
  ALMOST_ZERO :: real
  DIMENSION_FRACTION_GRID_EXTENSION :: real
  DIMENSION_N_GRID :: int
  compute_vector_bandwidth :: "real list \<Rightarrow> real"
  FFTKDE :: "real list \<Rightarrow> real list list \<Rightarrow> real list list \<Rightarrow> error + fval list"

text \<open>\<open>t[i]\<close> on a tuple, for an index that is not negative.\<close>

definition get_item :: "'a list \<Rightarrow> nat \<Rightarrow> error + 'a" where
  "get_item t i = (if i < length t then Inr (t ! i) else Inl IndexError)"

text \<open>
  A generator expression consumed from left to right: the first element that raises ends
  the iteration.
\<close>

fun traverse :: "('a \<Rightarrow> error + 'b) \<Rightarrow> 'a list \<Rightarrow> error + 'b list" where
  "traverse f [] = Inr []"
| "traverse f (x # xs) =
     bind_error (f x) (\<lambda>y. bind_error (traverse f xs) (\<lambda>ys. Inr (y # ys)))"

text \<open>\<open>if t is None: t = (d,) * n_dimension\<close>, for a default \<open>d\<close>.\<close>

definition tuple_or_default :: "'a list option \<Rightarrow> 'a \<Rightarrow> nat \<Rightarrow> 'a list" where
  "tuple_or_default t d n_dimension =
     (case t of None \<Rightarrow> replicate n_dimension d | Some t \<Rightarrow> t)"

text \<open>The bandwidths: supplied or else estimated per column, then scaled by the factors.\<close>

definition resolve_dimension_bandwidths ::
  "library \<Rightarrow> real list list \<Rightarrow> real list option \<Rightarrow> real list option \<Rightarrow> error + real list" where
  "resolve_dimension_bandwidths L element_x_dimension dimension_bandwidths
       dimension_bandwidth_factors =
     (let n_dimension = length element_x_dimension;
          dimension_bandwidths =
            (case dimension_bandwidths of
               None \<Rightarrow> map (\<lambda>i. compute_vector_bandwidth L (element_x_dimension ! i))
                         [0..<n_dimension]
             | Some b \<Rightarrow> b)
      in case dimension_bandwidth_factors of
           None \<Rightarrow> Inr dimension_bandwidths
         | Some factors \<Rightarrow>
             traverse (\<lambda>i. bind_error (get_item dimension_bandwidths i) (\<lambda>b.
                            bind_error (get_item factors i) (\<lambda>f. Inr (b * f))))
               [0..<n_dimension])"

text \<open>The grid of dimension \<open>i\<close>: the four configuration entries are read, then the grid is built.\<close>

definition dimension_grid ::
  "real list list \<Rightarrow> real option list \<Rightarrow> real option list \<Rightarrow> real list \<Rightarrow> int list \<Rightarrow> nat
     \<Rightarrow> error + real list" where
  "dimension_grid element_x_dimension dimension_grid_mins dimension_grid_maxs
       dimension_fraction_grid_extensions dimension_n_grids i =
     bind_error (get_item dimension_grid_mins i) (\<lambda>grid_min.
     bind_error (get_item dimension_grid_maxs i) (\<lambda>grid_max.
     bind_error (get_item dimension_fraction_grid_extensions i) (\<lambda>fraction.
     bind_error (get_item dimension_n_grids i) (\<lambda>n_grid.
       make_vector_grid (element_x_dimension ! i) grid_min grid_max fraction n_grid))))"

definition dimension_grids ::
  "library \<Rightarrow> real list list \<Rightarrow> real option list option \<Rightarrow> real option list option
     \<Rightarrow> real list option \<Rightarrow> int list option \<Rightarrow> error + real list list" where
  "dimension_grids L element_x_dimension dimension_grid_mins dimension_grid_maxs
       dimension_fraction_grid_extensions dimension_n_grids =
     (let n_dimension = length element_x_dimension
      in traverse
           (dimension_grid element_x_dimension
              (tuple_or_default dimension_grid_mins None n_dimension)
              (tuple_or_default dimension_grid_maxs None n_dimension)
              (tuple_or_default dimension_fraction_grid_extensions
                 (DIMENSION_FRACTION_GRID_EXTENSION L) n_dimension)
              (tuple_or_default dimension_n_grids (DIMENSION_N_GRID L) n_dimension))
           [0..<n_dimension])"

text \<open>
  The estimator. Plotting only displays the pair that is returned and is left out.
\<close>

definition estimate_element_x_dimension_kernel_density ::
  "library \<Rightarrow> real list list \<Rightarrow> real list option \<Rightarrow> real list option
     \<Rightarrow> real option list option \<Rightarrow> real option list option
     \<Rightarrow> real list option \<Rightarrow> int list option
     \<Rightarrow> error + (real list list \<times> fval list)" where
  "estimate_element_x_dimension_kernel_density L element_x_dimension dimension_bandwidths
       dimension_bandwidth_factors dimension_grid_mins dimension_grid_maxs
       dimension_fraction_grid_extensions dimension_n_grids =
     bind_error (resolve_dimension_bandwidths L element_x_dimension dimension_bandwidths
                   dimension_bandwidth_factors) (\<lambda>dimension_bandwidths.
     bind_error (dimension_grids L element_x_dimension dimension_grid_mins dimension_grid_maxs
                   dimension_fraction_grid_extensions dimension_n_grids) (\<lambda>grids.
       let mesh_grid_point_x_dimension = make_mesh_grid_point_x_dimension grids
       in bind_error (FFTKDE L dimension_bandwidths element_x_dimension
                        mesh_grid_point_x_dimension) (\<lambda>raw.
            Inr (mesh_grid_point_x_dimension, map (clip_min (ALMOST_ZERO L)) raw))))"

text \<open>
  Three instances of the library, for running the estimator on concrete inputs. They share
  the constants and a bandwidth estimator that answers 1, and differ in the kernel
  evaluation: one answers 0 at every mesh point, one answers not-a-number at every mesh
  point, and one raises unless every data point lies strictly inside the mesh, as the
  KDEpy evaluation does.
\<close>

definition flat_library :: library where
  "flat_library =
     \<lparr>ALMOST_ZERO = 1 / 10 ^ 16, DIMENSION_FRACTION_GRID_EXTENSION = 1 / 10,
      DIMENSION_N_GRID = 3, compute_vector_bandwidth = (\<lambda>vector. 1),
      FFTKDE = (\<lambda>bw data grid_points. Inr (map (\<lambda>point. Finite 0) grid_points))\<rparr>"

definition nan_library :: library where
  "nan_library =
     flat_library\<lparr>FFTKDE := (\<lambda>bw data grid_points. Inr (map (\<lambda>point. NaN) grid_points))\<rparr>"

definition strictly_inside :: "real list list \<Rightarrow> real list list \<Rightarrow> bool" where
  "strictly_inside data grid_points =
     list_all (\<lambda>i. list_all (\<lambda>x. list_ex (\<lambda>point. point ! i < x) grid_points
                                  \<and> list_ex (\<lambda>point. x < point ! i) grid_points) (data ! i))
       [0..<length data]"

definition strict_library :: library where
  "strict_library =
     flat_library\<lparr>FFTKDE := (\<lambda>bw data grid_points.
        if strictly_inside data grid_points then Inr (map (\<lambda>point. Finite 0) grid_points)
        else Inl ValueError)\<rparr>"

section \<open>\<open>drop_until\<close>\<close>

text \<open>
  \<open>drop\<close> is imported and not among the sources at hand, and a dataframe is only used
  through \<open>drop\<close> and \<open>shape\<close>: both are parameters, and the type of dataframes is
  arbitrary. The keyword arguments are the same in every call and are part of \<open>drop\<close>.
\<close>

definition next_ax :: "int \<Rightarrow> int" where
  "next_ax ax = (if ax = 0 then 1 else if ax = 1 then 0 else ax)"

text \<open>
  The loop. Its state is the dataframe, the axis, the last shape and the flag \<open>re\<close>; the
  last argument counts the calls of \<open>drop\<close> made so far and is returned with the result.
  The loop need not end: not returning is \<open>None\<close>.
\<close>

partial_function (option) drop_until_loop ::
  "('df \<Rightarrow> int \<Rightarrow> 'df) \<Rightarrow> ('df \<Rightarrow> nat \<times> nat) \<Rightarrow> 'df \<Rightarrow> int \<Rightarrow> nat \<times> nat \<Rightarrow> bool \<Rightarrow> nat
     \<Rightarrow> ('df \<times> nat) option" where
  "drop_until_loop drop_df shape da ax sh1 re calls =
     (if re \<and> sh1 = shape (drop_df da ax) then Some (drop_df da ax, Suc calls)
      else drop_until_loop drop_df shape (drop_df da ax) (next_ax ax) (shape (drop_df da ax)) True
             (Suc calls))"

definition drop_until ::
  "('df \<Rightarrow> int \<Rightarrow> 'df) \<Rightarrow> ('df \<Rightarrow> nat \<times> nat) \<Rightarrow> 'df \<Rightarrow> int option \<Rightarrow> ('df \<times> nat) option" where
  "drop_until drop_df shape da ax =
     (let sh1 = shape da;
          ax = (case ax of None \<Rightarrow> (if fst sh1 < snd sh1 then 1 else 0) | Some ax \<Rightarrow> ax)
      in drop_until_loop drop_df shape da ax sh1 False 0)"

text \<open>
  The dataframe after a number of calls of \<open>drop\<close>, with the axis of the next call: the
  sequence the loop walks along.
\<close>

fun after_drops :: "('df \<Rightarrow> int \<Rightarrow> 'df) \<Rightarrow> 'df \<Rightarrow> int \<Rightarrow> nat \<Rightarrow> 'df \<times> int" where
  "after_drops drop_df da ax 0 = (da, ax)"
| "after_drops drop_df da ax (Suc n) =
     (case after_drops drop_df da ax n of (da', ax') \<Rightarrow> (drop_df da' ax', next_ax ax'))"

definition first_ax :: "nat \<times> nat \<Rightarrow> int option \<Rightarrow> int" where
  "first_ax sh ax = (case ax of None \<Rightarrow> (if fst sh < snd sh then 1 else 0) | Some ax \<Rightarrow> ax)"

text \<open>
  A dataframe reduced to its shape, with a \<open>drop\<close> that keeps at most two rows along axis
  0 and at most three columns along any other axis.
\<close>

definition cap_drop :: "nat \<times> nat \<Rightarrow> int \<Rightarrow> nat \<times> nat" where
  "cap_drop da ax = (if ax = 0 then (min (fst da) 2, snd da) else (fst da, min (snd da) 3))"

section \<open>Facts about the primitives\<close>

lemma bind_error_simps:
  "bind_error (Inl e) f = Inl e"
  "bind_error (Inr x) f = f x"
  by (simp_all add: bind_error_def)



lemma linspace_negative: "num < 0 \<Longrightarrow> linspace start stop num = Inl ValueError"
  by (simp add: linspace_def)
















section \<open>Claims about the grid builder\<close>











section \<open>Facts about the estimator\<close>













lemmas run_estimator =
  estimate_element_x_dimension_kernel_density_def resolve_dimension_bandwidths_def
  dimension_grids_def dimension_grid_def tuple_or_default_def get_item_def
  make_vector_grid_def linspace_def bind_error_simps Let_def upt_conv_Cons
  flat_library_def nan_library_def strict_library_def strictly_inside_def








lemma clip_min_floor:
  "v \<noteq> NaN \<Longrightarrow> at_least m (clip_min m v)"
  by (cases v) simp_all

lemma clip_min_finite:
  "v \<noteq> NaN \<Longrightarrow> v \<noteq> PosInf \<Longrightarrow> is_finite (clip_min m v)"
  by (cases v) simp_all

lemma clip_min_positive:
  "0 < m \<Longrightarrow> v \<noteq> NaN \<Longrightarrow> is_positive (clip_min m v)"
  by (cases v) (simp_all add: max_def)

lemma clip_min_unchanged:
  "at_least m v \<Longrightarrow> clip_min m v = v"
  by (cases v) simp_all

lemma estimate_returns:
  assumes "estimate_element_x_dimension_kernel_density L X bandwidths factors mins maxs
             fractions n_grids = Inr (mesh, surface)"
  shows "\<exists>bw grids raw.
           resolve_dimension_bandwidths L X bandwidths factors = Inr bw
         \<and> dimension_grids L X mins maxs fractions n_grids = Inr grids
         \<and> mesh = make_mesh_grid_point_x_dimension grids
         \<and> FFTKDE L bw X mesh = Inr raw
         \<and> surface = map (clip_min (ALMOST_ZERO L)) raw"
proof -
  obtain bw where bw: "resolve_dimension_bandwidths L X bandwidths factors = Inr bw"
    using assms unfolding estimate_element_x_dimension_kernel_density_def
    by (cases "resolve_dimension_bandwidths L X bandwidths factors")
       (simp_all add: bind_error_simps)
  obtain grids where grids: "dimension_grids L X mins maxs fractions n_grids = Inr grids"
    using assms bw unfolding estimate_element_x_dimension_kernel_density_def
    by (cases "dimension_grids L X mins maxs fractions n_grids")
       (simp_all add: bind_error_simps)
  obtain raw where raw: "FFTKDE L bw X (make_mesh_grid_point_x_dimension grids) = Inr raw"
    using assms bw grids unfolding estimate_element_x_dimension_kernel_density_def
    by (cases "FFTKDE L bw X (make_mesh_grid_point_x_dimension grids)")
       (simp_all add: bind_error_simps Let_def)
  have "Inr (make_mesh_grid_point_x_dimension grids, map (clip_min (ALMOST_ZERO L)) raw)
          = (Inr (mesh, surface) :: error + (real list list \<times> fval list))"
    using assms bw grids raw unfolding estimate_element_x_dimension_kernel_density_def
    by (simp add: bind_error_simps Let_def)
  then show ?thesis
    using bw grids raw by auto
qed

section \<open>Claims about the estimator\<close>

text \<open>
  Claim C1, as amended. Whenever the estimator returns, the Density Surface holds one entry
  per value of the raw kernel evaluation, in the same order (so one per Mesh Grid point
  when the evaluation answers one value per point), and each entry is the raw value
  clipped from below at \<open>ALMOST_ZERO\<close>. With a positive \<open>ALMOST_ZERO\<close>, an entry whose
  raw value is neither not-a-number nor plus infinity is finite, positive and at least
  \<open>ALMOST_ZERO\<close>; a raw value already at or above the floor is returned unchanged; a raw
  not-a-number or plus infinity is returned as it is.
\<close>

theorem density_surface_clipped:
  assumes "estimate_element_x_dimension_kernel_density L element_x_dimension
             dimension_bandwidths dimension_bandwidth_factors dimension_grid_mins
             dimension_grid_maxs dimension_fraction_grid_extensions dimension_n_grids
           = Inr (mesh, surface)"
    and "0 < ALMOST_ZERO L"
  shows "\<exists>bw raw.
           resolve_dimension_bandwidths L element_x_dimension dimension_bandwidths
             dimension_bandwidth_factors = Inr bw
         \<and> FFTKDE L bw element_x_dimension mesh = Inr raw
         \<and> length surface = length raw
         \<and> (length raw = length mesh \<longrightarrow> length surface = length mesh)
         \<and> (\<forall>k < length raw. surface ! k = clip_min (ALMOST_ZERO L) (raw ! k))
         \<and> (\<forall>k < length raw. raw ! k \<noteq> NaN \<and> raw ! k \<noteq> PosInf \<longrightarrow>
               is_finite (surface ! k) \<and> is_positive (surface ! k)
             \<and> at_least (ALMOST_ZERO L) (surface ! k))
         \<and> (\<forall>k < length raw. at_least (ALMOST_ZERO L) (raw ! k) \<longrightarrow> surface ! k = raw ! k)
         \<and> (\<forall>k < length raw. raw ! k = NaN \<longrightarrow> surface ! k = NaN)
         \<and> (\<forall>k < length raw. raw ! k = PosInf \<longrightarrow> surface ! k = PosInf)"
proof -
  from estimate_returns [OF assms(1)]
  obtain bw raw where bw: "resolve_dimension_bandwidths L element_x_dimension
        dimension_bandwidths dimension_bandwidth_factors = Inr bw"
    and raw: "FFTKDE L bw element_x_dimension mesh = Inr raw"
    and surface: "surface = map (clip_min (ALMOST_ZERO L)) raw"
    by blast
  have "\<forall>k < length raw. raw ! k \<noteq> NaN \<and> raw ! k \<noteq> PosInf \<longrightarrow>
               is_finite (surface ! k) \<and> is_positive (surface ! k)
             \<and> at_least (ALMOST_ZERO L) (surface ! k)"
    using assms(2) by (simp add: surface clip_min_finite clip_min_positive clip_min_floor)
  moreover have "\<forall>k < length raw. at_least (ALMOST_ZERO L) (raw ! k) \<longrightarrow> surface ! k = raw ! k"
    by (simp add: surface clip_min_unchanged)
  moreover have "\<forall>k < length raw. surface ! k = clip_min (ALMOST_ZERO L) (raw ! k)"
    by (simp add: surface)
  moreover have "(\<forall>k < length raw. raw ! k = NaN \<longrightarrow> surface ! k = NaN)
         \<and> (\<forall>k < length raw. raw ! k = PosInf \<longrightarrow> surface ! k = PosInf)"
    by (simp add: surface)
  moreover have "length surface = length raw"
    by (simp add: surface)
  ultimately show ?thesis
    using bw raw by (intro exI [of _ bw] exI [of _ raw]) simp
qed

theorem density_surface_clipped_witness:
  "estimate_element_x_dimension_kernel_density strict_library [[0, 10]] None None None None
     None (Some [3])
   = Inr ([[- 1], [5], [11]], [Finite (1 / 10 ^ 16), Finite (1 / 10 ^ 16), Finite (1 / 10 ^ 16)])
   \<and> length [Finite (1 / 10 ^ 16), Finite (1 / 10 ^ 16), Finite (1 / 10 ^ 16)]
       = length [[- 1], [5], [11 :: real]]
   \<and> is_finite (Finite (1 / 10 ^ 16)) \<and> is_positive (Finite (1 / 10 ^ 16))
   \<and> at_least (ALMOST_ZERO strict_library) (Finite (1 / 10 ^ 16))"
proof -
  have run: "estimate_element_x_dimension_kernel_density strict_library [[0, 10]] None None
      None None None (Some [3])
    = Inr ([[- 1], [5], [11]], [Finite (1 / 10 ^ 16), Finite (1 / 10 ^ 16), Finite (1 / 10 ^ 16)])"
    by (simp add: run_estimator)
  have floor: "0 < ALMOST_ZERO strict_library"
    by (simp add: strict_library_def flat_library_def)
  from density_surface_clipped [OF run floor]
  obtain bw raw where raw:
    "FFTKDE strict_library bw [[0, 10]] [[- 1], [5], [11]] = Inr raw"
    "length [Finite (1 / 10 ^ 16), Finite (1 / 10 ^ 16), Finite (1 / 10 ^ 16) :: fval] = length raw"
    "\<forall>k < length raw. raw ! k \<noteq> NaN \<and> raw ! k \<noteq> PosInf \<longrightarrow>
        is_finite ([Finite (1 / 10 ^ 16), Finite (1 / 10 ^ 16), Finite (1 / 10 ^ 16)] ! k)
      \<and> is_positive ([Finite (1 / 10 ^ 16), Finite (1 / 10 ^ 16), Finite (1 / 10 ^ 16)] ! k)
      \<and> at_least (ALMOST_ZERO strict_library)
          ([Finite (1 / 10 ^ 16), Finite (1 / 10 ^ 16), Finite (1 / 10 ^ 16)] ! k)"
    by blast
  have "raw = [Finite 0, Finite 0, Finite 0]"
    using raw(1) by (simp add: strict_library_def flat_library_def strictly_inside_def)
  then have "is_finite (Finite (1 / 10 ^ 16)) \<and> is_positive (Finite (1 / 10 ^ 16))
      \<and> at_least (ALMOST_ZERO strict_library) (Finite (1 / 10 ^ 16))"
    using raw(3) [rule_format, of 0] by simp
  then show ?thesis
    using run by simp
qed

text \<open>
  The claim as first stated covers a raw evaluation that produces not-a-number: the clip
  leaves those entries as they are, and they are neither finite nor at least the floor.
\<close>

theorem density_surface_nan_counterexample:
  "estimate_element_x_dimension_kernel_density nan_library [[0, 10]] None None None None
     None (Some [2])
   = Inr ([[- 1], [11]], [NaN, NaN])
   \<and> \<not> is_finite NaN \<and> \<not> is_positive NaN \<and> \<not> at_least (ALMOST_ZERO nan_library) NaN"
  by (simp add: run_estimator)














text \<open>
  Claim C7. A call with \<open>dimension_bandwidths\<close> set to the values the bandwidth estimator
  gives for the columns of the matrix returns what the call with \<open>dimension_bandwidths\<close>
  omitted returns, all other arguments being the same.
\<close>

theorem explicit_bandwidths_same_as_estimated:
  "estimate_element_x_dimension_kernel_density L element_x_dimension
      (Some (map (\<lambda>i. compute_vector_bandwidth L (element_x_dimension ! i))
               [0..<length element_x_dimension]))
      dimension_bandwidth_factors dimension_grid_mins dimension_grid_maxs
      dimension_fraction_grid_extensions dimension_n_grids
   = estimate_element_x_dimension_kernel_density L element_x_dimension None
      dimension_bandwidth_factors dimension_grid_mins dimension_grid_maxs
      dimension_fraction_grid_extensions dimension_n_grids"
  by (simp add: estimate_element_x_dimension_kernel_density_def resolve_dimension_bandwidths_def
        Let_def)

theorem explicit_bandwidths_same_as_estimated_witness:
  "estimate_element_x_dimension_kernel_density strict_library [[0, 10], [2, 4]]
      (Some [compute_vector_bandwidth strict_library [0, 10],
             compute_vector_bandwidth strict_library [2, 4]])
      (Some [2, 3]) None None None (Some [3, 2])
   = estimate_element_x_dimension_kernel_density strict_library [[0, 10], [2, 4]] None
      (Some [2, 3]) None None None (Some [3, 2])"
  using explicit_bandwidths_same_as_estimated [of strict_library "[[0, 10], [2, 4]]"
      "Some [2, 3]" None None None "Some [3, 2]"]
  by (simp add: upt_conv_Cons)

section \<open>Claim about the mesh assembler\<close>

lemma mesh_product_lists: "make_mesh_grid_point_x_dimension grids = product_lists grids"
  by (induction grids) simp_all

lemma point_at_Cons: "point_at (grid # grids) (k # indices) = grid ! k # point_at grids indices"
  by (simp add: point_at_def)

lemma mesh_by_indices:
  "make_mesh_grid_point_x_dimension grids
     = map (point_at grids) (make_mesh_grid_point_x_dimension (map (\<lambda>grid. [0..<length grid]) grids))"
proof (induction grids)
  case Nil
  then show ?case by (simp add: point_at_def)
next
  case (Cons grid grids)
  let ?indices = "make_mesh_grid_point_x_dimension (map (\<lambda>grid. [0..<length grid]) grids)"
  have "map (\<lambda>x. map ((#) x) (make_mesh_grid_point_x_dimension grids)) grid
      = map (\<lambda>k. map (point_at (grid # grids)) (map ((#) k) ?indices)) [0..<length grid]"
    (is "?l = ?r")
  proof (rule nth_equalityI)
    show "length ?l = length ?r" by simp
  next
    fix i assume "i < length ?l"
    then have i: "i < length grid" by simp
    have "?r ! i = map (\<lambda>p. grid ! i # point_at grids p) ?indices"
      using i by (simp add: point_at_Cons comp_def)
    also have "\<dots> = map ((#) (grid ! i)) (map (point_at grids) ?indices)"
      by (simp add: comp_def)
    also have "\<dots> = ?l ! i"
      using i Cons.IH by simp
    finally show "?l ! i = ?r ! i" by simp
  qed
  then show ?case
    by (simp add: map_concat comp_def)
qed

text \<open>
  Claim C3. The Mesh Grid has as many points as the product of the lengths of the
  Dimension Grids; its points are exactly the combinations of one value from each grid,
  coordinates in the order of the grids; and it is the list of the points at the index
  combinations, each of which is enumerated exactly once. The mesh is a function of the
  grids, so equal inputs give the same enumeration.
\<close>

theorem mesh_is_cartesian_product:
  "length (make_mesh_grid_point_x_dimension grids) = prod_list (map length grids)
   \<and> set (make_mesh_grid_point_x_dimension grids)
       = {point. list_all2 (\<lambda>x grid. x \<in> set grid) point grids}
   \<and> make_mesh_grid_point_x_dimension grids
       = map (point_at grids)
           (make_mesh_grid_point_x_dimension (map (\<lambda>grid. [0..<length grid]) grids))
   \<and> distinct (make_mesh_grid_point_x_dimension (map (\<lambda>grid. [0..<length grid]) grids))
   \<and> set (make_mesh_grid_point_x_dimension (map (\<lambda>grid. [0..<length grid]) grids))
       = {indices. list_all2 (\<lambda>k grid. k < length grid) indices grids}"
proof -
  have len: "length (make_mesh_grid_point_x_dimension grids) = prod_list (map length grids)"
    by (simp add: mesh_product_lists length_product_lists prod_list.eq_foldr)
  have points: "set (make_mesh_grid_point_x_dimension grids)
       = {point. list_all2 (\<lambda>x grid. x \<in> set grid) point grids}"
    by (simp add: mesh_product_lists product_lists_set)
  have "distinct (product_lists (map (\<lambda>grid. [0..<length grid]) grids))"
    by (rule distinct_product_lists) auto
  then have once: "distinct (make_mesh_grid_point_x_dimension (map (\<lambda>grid. [0..<length grid]) grids))"
    by (simp only: mesh_product_lists)
  have all: "set (make_mesh_grid_point_x_dimension (map (\<lambda>grid. [0..<length grid]) grids))
       = {indices. list_all2 (\<lambda>k grid. k < length grid) indices grids}"
    by (simp add: mesh_product_lists product_lists_set list_all2_map2)
  show ?thesis
    using len points mesh_by_indices [of grids] once all by blast
qed

theorem mesh_is_cartesian_product_witness:
  "length (make_mesh_grid_point_x_dimension [[1, 2, 3], [10, 20, 30, 40 :: real]]) = 12
   \<and> make_mesh_grid_point_x_dimension [[1, 2, 3], [10, 20, 30, 40 :: real]]
       = [[1, 10], [1, 20], [1, 30], [1, 40], [2, 10], [2, 20], [2, 30], [2, 40],
          [3, 10], [3, 20], [3, 30], [3, 40]]
   \<and> distinct (make_mesh_grid_point_x_dimension [[1, 2, 3], [10, 20, 30, 40 :: real]])"
proof -
  have "length (make_mesh_grid_point_x_dimension [[1, 2, 3], [10, 20, 30, 40 :: real]])
          = prod_list (map length [[1, 2, 3], [10, 20, 30, 40 :: real]])"
    using mesh_is_cartesian_product [of "[[1, 2, 3], [10, 20, 30, 40 :: real]]"] by blast
  then have "length (make_mesh_grid_point_x_dimension [[1, 2, 3], [10, 20, 30, 40 :: real]]) = 12"
    by simp
  moreover have "make_mesh_grid_point_x_dimension [[1, 2, 3], [10, 20, 30, 40 :: real]]
       = [[1, 10], [1, 20], [1, 30], [1, 40], [2, 10], [2, 20], [2, 30], [2, 40],
          [3, 10], [3, 20], [3, 30], [3, 40]]"
    by simp
  ultimately show ?thesis
    by simp
qed

section \<open>Claim about \<open>drop_until\<close>\<close>

lemma after_drops_shift:
  "after_drops drop_df da ax (Suc n) = after_drops drop_df (drop_df da ax) (next_ax ax) n"
  by (induction n) simp_all

lemma drop_until_loop_returns:
  fixes shape :: "'df \<Rightarrow> nat \<times> nat"
  assumes smaller: "\<And>d a. fst (shape (drop_df d a)) \<le> fst (shape d)
                         \<and> snd (shape (drop_df d a)) \<le> snd (shape d)"
  shows "\<exists>n. 1 \<le> n
           \<and> drop_until_loop drop_df shape da ax (shape da) True calls
               = Some (fst (after_drops drop_df da ax n), calls + n)
           \<and> shape (fst (after_drops drop_df da ax n))
               = shape (fst (after_drops drop_df da ax (n - 1)))
           \<and> (\<forall>j. 1 \<le> j \<and> j < n \<longrightarrow>
                 shape (fst (after_drops drop_df da ax j))
                   \<noteq> shape (fst (after_drops drop_df da ax (j - 1))))"
proof (induction "fst (shape da) + snd (shape da)" arbitrary: da ax calls rule: less_induct)
  case less
  let ?da = "drop_df da ax"
  show ?case
  proof (cases "shape da = shape ?da")
    case True
    have "drop_until_loop drop_df shape da ax (shape da) True calls = Some (?da, Suc calls)"
      using True by (subst drop_until_loop.simps) simp
    then show ?thesis
      using True by (intro exI [of _ 1]) simp
  next
    case False
    have "fst (shape ?da) + snd (shape ?da) < fst (shape da) + snd (shape da)"
      using smaller [of da ax] False by (cases "shape da"; cases "shape ?da") auto
    from less [OF this, of "next_ax ax" "Suc calls"]
    obtain n where n: "1 \<le> n"
      "drop_until_loop drop_df shape ?da (next_ax ax) (shape ?da) True (Suc calls)
         = Some (fst (after_drops drop_df ?da (next_ax ax) n), Suc calls + n)"
      "shape (fst (after_drops drop_df ?da (next_ax ax) n))
         = shape (fst (after_drops drop_df ?da (next_ax ax) (n - 1)))"
      "\<forall>j. 1 \<le> j \<and> j < n \<longrightarrow>
          shape (fst (after_drops drop_df ?da (next_ax ax) j))
            \<noteq> shape (fst (after_drops drop_df ?da (next_ax ax) (j - 1)))"
      by blast
    have run: "drop_until_loop drop_df shape da ax (shape da) True calls
                 = Some (fst (after_drops drop_df da ax (Suc n)), calls + Suc n)"
      using False n(2)
      by (subst drop_until_loop.simps) (simp add: after_drops_shift del: after_drops.simps)
    have stop: "shape (fst (after_drops drop_df da ax (Suc n)))
                  = shape (fst (after_drops drop_df da ax (Suc n - 1)))"
    proof -
      obtain m where m: "n = Suc m" using n(1) by (cases n) auto
      show ?thesis using n(3) unfolding m by (simp add: after_drops_shift del: after_drops.simps)
    qed
    have before: "\<forall>j. 1 \<le> j \<and> j < Suc n \<longrightarrow>
          shape (fst (after_drops drop_df da ax j))
            \<noteq> shape (fst (after_drops drop_df da ax (j - 1)))"
    proof (intro allI impI)
      fix j assume j: "1 \<le> j \<and> j < Suc n"
      show "shape (fst (after_drops drop_df da ax j))
              \<noteq> shape (fst (after_drops drop_df da ax (j - 1)))"
      proof (cases "j = 1")
        case True
        then show ?thesis using False by simp
      next
        case False
        then obtain i where i: "j = Suc (Suc i)" using j by (cases j; cases "j - 1") auto
        have "1 \<le> Suc i \<and> Suc i < n" using j i by simp
        then have "shape (fst (after_drops drop_df ?da (next_ax ax) (Suc i)))
            \<noteq> shape (fst (after_drops drop_df ?da (next_ax ax) (Suc i - 1)))"
          using n(4) by blast
        then show ?thesis unfolding i by (simp add: after_drops_shift del: after_drops.simps)
      qed
    qed
    show ?thesis
      using run stop before by (intro exI [of _ "Suc n"]) simp
  qed
qed

lemma drop_until_first:
  "drop_until drop_df shape da ax
     = drop_until_loop drop_df shape (drop_df da (first_ax (shape da) ax))
         (next_ax (first_ax (shape da) ax))
         (shape (drop_df da (first_ax (shape da) ax))) True 1"
  unfolding drop_until_def first_ax_def Let_def
  by (subst drop_until_loop.simps) simp

text \<open>
  Claim C10. If every call of \<open>drop\<close> returns a dataframe whose shape is componentwise
  at most the shape of its input, then \<open>drop_until\<close> returns for every dataframe and
  every choice of the axis; it returns after at least two calls of \<open>drop\<close>, and the
  call it returns from is the first one, from the second call onward, that leaves the
  shape unchanged.
\<close>

theorem drop_until_terminates:
  fixes shape :: "'df \<Rightarrow> nat \<times> nat"
  assumes smaller: "\<And>d a. fst (shape (drop_df d a)) \<le> fst (shape d)
                         \<and> snd (shape (drop_df d a)) \<le> snd (shape d)"
  shows "\<exists>calls. 2 \<le> calls
           \<and> drop_until drop_df shape da ax
               = Some (fst (after_drops drop_df da (first_ax (shape da) ax) calls), calls)
           \<and> shape (fst (after_drops drop_df da (first_ax (shape da) ax) calls))
               = shape (fst (after_drops drop_df da (first_ax (shape da) ax) (calls - 1)))
           \<and> (\<forall>j. 2 \<le> j \<and> j < calls \<longrightarrow>
                 shape (fst (after_drops drop_df da (first_ax (shape da) ax) j))
                   \<noteq> shape (fst (after_drops drop_df da (first_ax (shape da) ax) (j - 1))))"
proof -
  let ?ax = "first_ax (shape da) ax"
  let ?da = "drop_df da ?ax"
  from drop_until_loop_returns [of shape drop_df ?da "next_ax ?ax" 1, OF smaller]
  obtain n where n: "1 \<le> n"
      "drop_until_loop drop_df shape ?da (next_ax ?ax) (shape ?da) True 1
         = Some (fst (after_drops drop_df ?da (next_ax ?ax) n), 1 + n)"
      "shape (fst (after_drops drop_df ?da (next_ax ?ax) n))
         = shape (fst (after_drops drop_df ?da (next_ax ?ax) (n - 1)))"
      "\<forall>j. 1 \<le> j \<and> j < n \<longrightarrow>
          shape (fst (after_drops drop_df ?da (next_ax ?ax) j))
            \<noteq> shape (fst (after_drops drop_df ?da (next_ax ?ax) (j - 1)))"
    by blast
  obtain m where m: "n = Suc m" using n(1) by (cases n) auto
  have run: "drop_until drop_df shape da ax = Some (fst (after_drops drop_df da ?ax (Suc n)), Suc n)"
    using n(2) by (simp add: drop_until_first after_drops_shift del: after_drops.simps)
  have stop: "shape (fst (after_drops drop_df da ?ax (Suc n)))
                = shape (fst (after_drops drop_df da ?ax (Suc n - 1)))"
    using n(3) unfolding m by (simp add: after_drops_shift del: after_drops.simps)
  have before: "\<forall>j. 2 \<le> j \<and> j < Suc n \<longrightarrow>
          shape (fst (after_drops drop_df da ?ax j))
            \<noteq> shape (fst (after_drops drop_df da ?ax (j - 1)))"
  proof (intro allI impI)
    fix j assume j: "2 \<le> j \<and> j < Suc n"
    then obtain i where i: "j = Suc (Suc i)" by (cases j; cases "j - 1") auto
    have "1 \<le> Suc i \<and> Suc i < n" using j i by simp
    then have "shape (fst (after_drops drop_df ?da (next_ax ?ax) (Suc i)))
        \<noteq> shape (fst (after_drops drop_df ?da (next_ax ?ax) (Suc i - 1)))"
      using n(4) by blast
    then show "shape (fst (after_drops drop_df da ?ax j))
            \<noteq> shape (fst (after_drops drop_df da ?ax (j - 1)))"
      unfolding i by (simp add: after_drops_shift del: after_drops.simps)
  qed
  show ?thesis
    using run stop before n(1) by (intro exI [of _ "Suc n"]) simp
qed

lemma cap_drop_smaller:
  "fst (id (cap_drop d a)) \<le> fst (id d) \<and> snd (id (cap_drop d a)) \<le> snd (id d)"
  by (simp add: cap_drop_def)

theorem drop_until_terminates_witness:
  "drop_until cap_drop id (4, 5) None = Some ((2, 3), 3)"
proof -
  obtain calls where c:
    "drop_until cap_drop id (4, 5) None
       = Some (fst (after_drops cap_drop (4, 5) (first_ax (id (4, 5)) None) calls), calls)"
    using drop_until_terminates [of id cap_drop "(4, 5)" None, OF cap_drop_smaller] by blast
  have "drop_until cap_drop id (4, 5) None = Some ((2, 3), 3)"
    unfolding drop_until_def Let_def
    apply (subst drop_until_loop.simps)
    apply (simp add: cap_drop_def next_ax_def)
    apply (subst drop_until_loop.simps)
    apply (simp add: cap_drop_def next_ax_def)
    apply (subst drop_until_loop.simps)
    apply (simp add: cap_drop_def next_ax_def)
    done
  then show ?thesis by simp
qed

end
